theory Spec2Isabelle
  imports Main "HOL-Library.AList"
begin

section \<open>Python text primitives\<close>

text \<open>
  The registry modules work on Python \<open>str\<close> objects. Text is modelled as a list of
  characters; a \<^typ>\<open>char\<close> stands for a code point below 256, so the development
  covers texts over Latin-1. All tables below (white space, line boundaries, digits,
  lower-casing) are the Python ones restricted to that range.
\<close>

abbreviation dquote :: char where "dquote \<equiv> CHR 0x22"
abbreviation backslash :: char where "backslash \<equiv> CHR 0x5C"
abbreviation newline :: char where "newline \<equiv> CHR 0x0A"

definition is_space :: "char \<Rightarrow> bool" where
  \<comment> \<open>\<open>str.isspace\<close> for one character; the set \<open>str.strip()\<close> removes\<close>
  "is_space c = (let n = (of_char c :: nat)
                 in (9 \<le> n \<and> n \<le> 13) \<or> (28 \<le> n \<and> n \<le> 32) \<or> n = 133 \<or> n = 160)"

definition is_ascii_space :: "char \<Rightarrow> bool" where
  \<comment> \<open>the white space of \<open>bytes\<close> objects\<close>
  "is_ascii_space c = (let n = (of_char c :: nat) in (9 \<le> n \<and> n \<le> 13) \<or> n = 32)"

definition is_linebreak :: "char \<Rightarrow> bool" where
  \<comment> \<open>the line boundaries of \<open>str.splitlines\<close>\<close>
  "is_linebreak c = (let n = (of_char c :: nat)
                     in (10 \<le> n \<and> n \<le> 13) \<or> (28 \<le> n \<and> n \<le> 30) \<or> n = 133)"

definition strip :: "string \<Rightarrow> string" where
  "strip s = rev (dropWhile is_space (rev (dropWhile is_space s)))"

fun splitlines_from :: "string \<Rightarrow> string \<Rightarrow> string list" where
  \<comment> \<open>first argument: the line read so far; CR LF is one boundary; no empty last line\<close>
  "splitlines_from cur [] = (if cur = [] then [] else [cur])"
| "splitlines_from cur [c] = (if is_linebreak c then [cur] else [cur @ [c]])"
| "splitlines_from cur (c # d # cs) =
     (if c = CHR 0x0D \<and> d = CHR 0x0A then cur # splitlines_from [] cs
      else if is_linebreak c then cur # splitlines_from [] (d # cs)
      else splitlines_from (cur @ [c]) (d # cs))"

definition splitlines :: "string \<Rightarrow> string list" where
  "splitlines s = splitlines_from [] s"

fun split_from :: "char \<Rightarrow> string \<Rightarrow> string \<Rightarrow> string list" where
  "split_from sep cur [] = [cur]"
| "split_from sep cur (c # cs) =
     (if c = sep then cur # split_from sep [] cs else split_from sep (cur @ [c]) cs)"

definition split :: "char \<Rightarrow> string \<Rightarrow> string list" where
  \<comment> \<open>\<open>s.split(sep)\<close> for a one-character separator\<close>
  "split sep s = split_from sep [] s"

fun join :: "string \<Rightarrow> string list \<Rightarrow> string" where
  "join sep [] = []"
| "join sep [x] = x"
| "join sep (x # y # ys) = x @ sep @ join sep (y # ys)"

definition startswith :: "string \<Rightarrow> string \<Rightarrow> bool" where
  "startswith s p = (take (length p) s = p)"

definition endswith :: "string \<Rightarrow> string \<Rightarrow> bool" where
  "endswith s p = (length p \<le> length s \<and> drop (length s - length p) s = p)"

function replace :: "string \<Rightarrow> string \<Rightarrow> string \<Rightarrow> string" where
  \<comment> \<open>\<open>s.replace(old, new)\<close> for a non-empty \<open>old\<close>: leftmost occurrences, not overlapping\<close>
  "replace old new [] = []"
| "replace old new (c # cs) =
     (if old \<noteq> [] \<and> take (length old) (c # cs) = old
      then new @ replace old new (drop (length old) (c # cs))
      else c # replace old new cs)"
  by pat_completeness auto
termination
  by (relation "measure (\<lambda>(old, new, s). length s)") auto

definition lower_char :: "char \<Rightarrow> char" where
  "lower_char c = (let n = (of_char c :: nat)
                   in if (65 \<le> n \<and> n \<le> 90) \<or> (192 \<le> n \<and> n \<le> 222 \<and> n \<noteq> 215)
                      then char_of (n + 32) else c)"

definition lower :: "string \<Rightarrow> string" where
  "lower s = map lower_char s"

subsection \<open>\<open>int(text, base)\<close>\<close>

definition digit_val :: "char \<Rightarrow> nat option" where
  "digit_val c = (let n = (of_char c :: nat)
                  in if 48 \<le> n \<and> n \<le> 57 then Some (n - 48)
                     else if 97 \<le> n \<and> n \<le> 122 then Some (n - 87)
                     else if 65 \<le> n \<and> n \<le> 90 then Some (n - 55)
                     else None)"

definition is_digit :: "nat \<Rightarrow> char \<Rightarrow> bool" where
  "is_digit b c = (case digit_val c of None \<Rightarrow> False | Some d \<Rightarrow> d < b)"

fun scan_digits :: "nat \<Rightarrow> char \<Rightarrow> nat \<Rightarrow> string \<Rightarrow> (nat \<times> string) option" where
  \<comment> \<open>digits with single underscores between them; arguments: base, previous character,
     value so far, rest. \<open>None\<close>: a doubled or trailing underscore.\<close>
  "scan_digits b prev acc [] = (if prev = CHR ''_'' then None else Some (acc, []))"
| "scan_digits b prev acc (c # cs) =
     (if c = CHR ''_'' then (if prev = CHR ''_'' then None else scan_digits b c acc cs)
      else if is_digit b c then scan_digits b c (acc * b + the (digit_val c)) cs
      else if prev = CHR ''_'' then None
      else Some (acc, c # cs))"

definition strip_sign :: "string \<Rightarrow> bool \<times> string" where
  "strip_sign s = (case s of
       [] \<Rightarrow> (False, [])
     | c # r \<Rightarrow> if c = CHR ''+'' then (False, r) else if c = CHR ''-'' then (True, r) else (False, s))"

definition strip_prefix :: "nat \<Rightarrow> string \<Rightarrow> string" where
  \<comment> \<open>base 16 accepts \<open>0x\<close> or \<open>0X\<close>, and one underscore after it\<close>
  "strip_prefix b s = (case s of
       z # x # r \<Rightarrow>
         if b = 16 \<and> z = CHR ''0'' \<and> (x = CHR ''x'' \<or> x = CHR ''X'')
         then (case r of [] \<Rightarrow> r | u # r' \<Rightarrow> if u = CHR ''_'' then r' else r)
         else s
     | _ \<Rightarrow> s)"

definition py_int :: "(char \<Rightarrow> bool) \<Rightarrow> nat \<Rightarrow> string \<Rightarrow> int option" where
  \<comment> \<open>\<open>int(s, b)\<close> for \<open>b\<close> 10 or 16; \<open>None\<close> is the \<open>ValueError\<close>. The first argument
     is the white space skipped on both sides.\<close>
  "py_int sp b s =
     (let (neg, s2) = strip_sign (dropWhile sp s);
          s3 = strip_prefix b s2
      in case s3 of
           [] \<Rightarrow> None
         | c # _ \<Rightarrow>
             if is_digit b c
             then (case scan_digits b (CHR 0x00) 0 s3 of
                     None \<Rightarrow> None
                   | Some (v, rest) \<Rightarrow>
                       if dropWhile sp rest = [] then Some (if neg then - int v else int v)
                       else None)
             else None)"

section \<open>The parsed document\<close>

datatype pyelem = EInt int | EStr string

datatype pydata =
    PyNone
  | PyInt int
  | PyStr string
  | PyList "pyelem list"
  | PyBytes "nat list"

text \<open>
  The notes a value dictionary carries under \<open>'error'\<close>. Each constructor is one of the
  formatted messages of \<open>_parse_value\<close> with the text that is interpolated into it; for
  \<open>InvalidHexData\<close> that is the piece \<open>int(hex_pair, 16)\<close> rejected.
\<close>

datatype value_note =
    InvalidDword string
  | InvalidQword string
  | InvalidHexData string
  | UnknownValueType string

text \<open>
  A value dictionary with the keys \<open>'type'\<close>, \<open>'data'\<close>, \<open>'error'\<close> and \<open>'action'\<close>,
  each of which may be absent (\<open>None\<close> below); \<open>'data': None\<close> is \<open>Some PyNone\<close>.
\<close>

record reg_value =
  vtype :: "string option"
  vdata :: "pydata option"
  verror :: "value_note option"
  vaction :: "string option"

record key_entry =
  k_values :: "(string \<times> reg_value) list"
  k_default_value :: "reg_value option"

datatype py_exception = KeyError string

datatype parse_error =
    UnknownFormat nat string
  | ParsingFailure nat py_exception


record parsed =
  p_version :: "string option"
  p_keys :: "(string \<times> key_entry) list"
  p_deleted_keys :: "string list"
  p_errors :: "parse_error list"

section \<open>\<open>RegFileParser\<close>\<close>

subsection \<open>The line patterns\<close>

definition at_end :: "(string \<Rightarrow> 'a option) \<Rightarrow> string \<Rightarrow> 'a option" where
  \<comment> \<open>\<open>$\<close> matches at the end of the text and before one final newline\<close>
  "at_end m s = (case m s of
       Some r \<Rightarrow> Some r
     | None \<Rightarrow> if s \<noteq> [] \<and> last s = newline then m (butlast s) else None)"

definition bracketed :: "string \<Rightarrow> string option" where
  \<comment> \<open>\<open>\[([^\]]+)\]\<close> on the whole text\<close>
  "bracketed s = (case s of
       [] \<Rightarrow> None
     | c # r \<Rightarrow>
         if c = CHR ''['' \<and> r \<noteq> [] \<and> last r = CHR '']'' \<and> butlast r \<noteq> []
            \<and> CHR '']'' \<notin> set (butlast r)
         then Some (butlast r) else None)"

definition key_pattern :: "string \<Rightarrow> string option" where
  \<comment> \<open>\<open>^\[([^\]]+)\]$\<close>\<close>
  "key_pattern = at_end bracketed"

definition delete_key_pattern :: "string \<Rightarrow> string option" where
  \<comment> \<open>\<open>^\[-([^\]]+)\]$\<close>\<close>
  "delete_key_pattern = at_end (\<lambda>s. case s of
       c # d # r \<Rightarrow>
         if c = CHR ''['' \<and> d = CHR ''-'' \<and> r \<noteq> [] \<and> last r = CHR '']'' \<and> butlast r \<noteq> []
            \<and> CHR '']'' \<notin> set (butlast r)
         then Some (butlast r) else None
     | _ \<Rightarrow> None)"

definition dot_plus :: "string \<Rightarrow> string option" where
  \<comment> \<open>\<open>(.+)\<close> on the whole text: one or more characters other than newline\<close>
  "dot_plus s = (if s \<noteq> [] \<and> newline \<notin> set s then Some s else None)"

definition default_value_pattern :: "string \<Rightarrow> string option" where
  \<comment> \<open>\<open>^@=(.+)$\<close>\<close>
  "default_value_pattern = at_end (\<lambda>s. case s of
       c # d # r \<Rightarrow> if c = CHR ''@'' \<and> d = CHR ''='' then dot_plus r else None
     | _ \<Rightarrow> None)"

definition value_pattern :: "string \<Rightarrow> (string \<times> string) option" where
  \<comment> \<open>\<open>^"([^"]*)"=(.+)$\<close>: the name ends at the first quote after the opening one\<close>
  "value_pattern = at_end (\<lambda>s. case s of
       [] \<Rightarrow> None
     | q # r \<Rightarrow>
         if q = dquote
         then (case dropWhile (\<lambda>c. c \<noteq> dquote) r of
                 q' # e # v \<Rightarrow>
                   if e = CHR ''=''
                   then map_option (\<lambda>raw. (takeWhile (\<lambda>c. c \<noteq> dquote) r, raw)) (dot_plus v)
                   else None
               | _ \<Rightarrow> None)
         else None)"

definition hex_type_pattern :: "string \<Rightarrow> (string \<times> string) option" where
  \<comment> \<open>\<open>re.match(r'hex\(([^)]+)\):', s)\<close>: the type code and the text after the match\<close>
  "hex_type_pattern s =
     (if startswith s ''hex(''
      then (let r = drop 4 s; code = takeWhile (\<lambda>c. c \<noteq> CHR '')'') r
            in case dropWhile (\<lambda>c. c \<noteq> CHR '')'') r of
                 p # c # rest \<Rightarrow> if code \<noteq> [] \<and> c = CHR '':'' then Some (code, rest) else None
               | _ \<Rightarrow> None)
      else None)"

subsection \<open>\<open>_get_reg_type_from_code\<close> and \<open>_parse_value\<close>\<close>

definition type_mapping :: "(string \<times> string) list" where
  "type_mapping =
     [(''0'', ''REG_NONE''), (''1'', ''REG_SZ''), (''2'', ''REG_EXPAND_SZ''),
      (''3'', ''REG_BINARY''), (''4'', ''REG_DWORD''), (''5'', ''REG_DWORD_BIG_ENDIAN''),
      (''6'', ''REG_LINK''), (''7'', ''REG_MULTI_SZ''), (''8'', ''REG_RESOURCE_LIST''),
      (''9'', ''REG_FULL_RESOURCE_DESCRIPTOR''),
      (''a'', ''REG_RESOURCE_REQUIREMENTS_LIST''), (''b'', ''REG_QWORD'')]"

definition get_reg_type_from_code :: "string \<Rightarrow> string" where
  "get_reg_type_from_code type_code =
     (case map_of type_mapping (lower type_code) of Some t \<Rightarrow> t | None \<Rightarrow> ''REG_BINARY'')"

fun parse_hex_pairs :: "string list \<Rightarrow> string + int list" where
  \<comment> \<open>the loop over \<open>hex_data.split(',')\<close>; \<open>Inl p\<close>: \<open>int(p, 16)\<close> raised \<open>ValueError\<close>\<close>
  "parse_hex_pairs [] = Inr []"
| "parse_hex_pairs (p # ps) =
     (let hex_pair = strip p
      in if hex_pair \<noteq> [] \<and> hex_pair \<noteq> [backslash]
         then (case py_int is_space 16 hex_pair of
                 None \<Rightarrow> Inl hex_pair
               | Some b \<Rightarrow> (case parse_hex_pairs ps of Inl e \<Rightarrow> Inl e | Inr bs \<Rightarrow> Inr (b # bs)))
         else parse_hex_pairs ps)"

definition number_value :: "string \<Rightarrow> (string \<Rightarrow> value_note) \<Rightarrow> string \<Rightarrow> reg_value" where
  \<comment> \<open>the shared shape of the \<open>dword:\<close> and \<open>qword:\<close> branches\<close>
  "number_value reg_type note value_str =
     (case py_int is_space 16 (drop 6 value_str) of
        Some n \<Rightarrow> \<lparr>vtype = Some reg_type, vdata = Some (PyInt n), verror = None, vaction = None\<rparr>
      | None \<Rightarrow> \<lparr>vtype = Some reg_type, vdata = Some (PyInt 0), verror = Some (note value_str),
                 vaction = None\<rparr>)"

definition hex_value :: "string \<Rightarrow> reg_value" where
  "hex_value value_str =
     (let (reg_type, hex_data) =
            (if startswith value_str ''hex:'' then (''REG_BINARY'', drop 4 value_str)
             else if startswith value_str ''hex('' then
               (case hex_type_pattern value_str of
                  Some (type_code, rest) \<Rightarrow> (get_reg_type_from_code type_code, rest)
                | None \<Rightarrow> (''REG_BINARY'', value_str))
             else (''REG_BINARY'', value_str))
      in case parse_hex_pairs (split (CHR '','') hex_data) of
           Inr hex_bytes \<Rightarrow>
             \<lparr>vtype = Some reg_type, vdata = Some (PyList (map EInt hex_bytes)), verror = None,
              vaction = None\<rparr>
         | Inl p \<Rightarrow>
             \<lparr>vtype = Some reg_type, vdata = Some (PyList []), verror = Some (InvalidHexData p),
              vaction = None\<rparr>)"

definition parse_value :: "string \<Rightarrow> reg_value" where
  "parse_value raw =
     (let value_str = strip raw
      in if startswith value_str [dquote] \<and> endswith value_str [dquote]
         then \<lparr>vtype = Some ''REG_SZ'',
               vdata = Some (PyStr (replace [backslash, dquote] [dquote] (butlast (tl value_str)))),
               verror = None, vaction = None\<rparr>
         else if startswith value_str ''dword:''
         then number_value ''REG_DWORD'' InvalidDword value_str
         else if startswith value_str ''qword:''
         then number_value ''REG_QWORD'' InvalidQword value_str
         else if startswith value_str ''hex'' then hex_value value_str
         else \<lparr>vtype = Some ''UNKNOWN'', vdata = Some (PyStr value_str),
               verror = Some (UnknownValueType value_str), vaction = None\<rparr>)"

subsection \<open>\<open>parse_content\<close>\<close>

text \<open>
  The loop state: the result dictionary, \<open>current_key\<close>, \<open>line_number\<close>, and whether an
  exception has left the loop (the \<open>except\<close> clause around it records the exception and
  the function returns what was parsed so far).
\<close>

record pstate =
  result :: parsed
  current_key :: "string option"
  line_number :: nat
  halted :: bool

definition empty_key :: key_entry where
  "empty_key = \<lparr>k_values = [], k_default_value = None\<rparr>"

definition add_error :: "parse_error \<Rightarrow> pstate \<Rightarrow> pstate" where
  "add_error e st = st\<lparr>result := (result st)\<lparr>p_errors := p_errors (result st) @ [e]\<rparr>\<rparr>"

definition with_key :: "pstate \<Rightarrow> string \<Rightarrow> (key_entry \<Rightarrow> key_entry) \<Rightarrow> pstate" where
  \<comment> \<open>an assignment into \<open>result['keys'][current_key]\<close>; a missing key raises \<open>KeyError\<close>\<close>
  "with_key st k f =
     (case map_of (p_keys (result st)) k of
        Some e \<Rightarrow> st\<lparr>result := (result st)\<lparr>p_keys := AList.update k (f e) (p_keys (result st))\<rparr>\<rparr>
      | None \<Rightarrow> (add_error (ParsingFailure (line_number st) (KeyError k)) st)\<lparr>halted := True\<rparr>)"

definition delete_marker :: reg_value where
  "delete_marker = \<lparr>vtype = Some ''DELETE'', vdata = Some PyNone, verror = None, vaction = None\<rparr>"

definition value_line :: "pstate \<Rightarrow> string \<Rightarrow> string \<Rightarrow> pstate option" where
  \<comment> \<open>the branch \<open>if current_key:\<close>; \<open>None\<close>: the line falls through to the error below\<close>
  "value_line st k line =
     (case default_value_pattern line of
        Some raw \<Rightarrow> Some (with_key st k (\<lambda>e. e\<lparr>k_default_value := Some (parse_value raw)\<rparr>))
      | None \<Rightarrow>
          (case value_pattern line of
             Some (value_name, value_raw) \<Rightarrow>
               Some (with_key st k (\<lambda>e. e\<lparr>k_values :=
                 AList.update value_name
                   (if value_raw = ''-'' then delete_marker else parse_value value_raw)
                   (k_values e)\<rparr>))
           | None \<Rightarrow> None))"

definition unknown_line :: "pstate \<Rightarrow> string \<Rightarrow> pstate" where
  "unknown_line st line =
     (if line \<noteq> [] \<and> \<not> startswith line '';''
      then add_error (UnknownFormat (line_number st) line) st else st)"

definition parse_line :: "pstate \<Rightarrow> string \<Rightarrow> pstate" where
  "parse_line st0 raw =
     (if halted st0 then st0
      else
        let st = st0\<lparr>line_number := line_number st0 + 1\<rparr>;
            line = strip raw;
            r = result st
        in if line = [] \<or> startswith line '';'' then st
           else if startswith line ''Windows Registry Editor''
           then st\<lparr>result := r\<lparr>p_version := Some line\<rparr>\<rparr>
           else (case key_pattern line of
                   Some k \<Rightarrow>
                     st\<lparr>current_key := Some k,
                        result := (if map_of (p_keys r) k = None
                                   then r\<lparr>p_keys := p_keys r @ [(k, empty_key)]\<rparr> else r)\<rparr>
                 | None \<Rightarrow>
                     (case delete_key_pattern line of
                        Some deleted_key \<Rightarrow>
                          st\<lparr>result := r\<lparr>p_deleted_keys := p_deleted_keys r @ [deleted_key]\<rparr>\<rparr>
                      | None \<Rightarrow>
                          (case current_key st of
                             None \<Rightarrow> unknown_line st line
                           | Some k \<Rightarrow>
                               if k = [] then unknown_line st line
                               else (case value_line st k line of
                                       Some st' \<Rightarrow> st'
                                     | None \<Rightarrow> unknown_line st line)))))"

definition initial :: pstate where
  "initial = \<lparr>result = \<lparr>p_version = None, p_keys = [], p_deleted_keys = [], p_errors = []\<rparr>,
              current_key = None, line_number = 0, halted = False\<rparr>"

definition parse_lines :: "string list \<Rightarrow> pstate" where
  "parse_lines ls = foldl parse_line initial ls"

definition parse_content :: "string \<Rightarrow> parsed" where
  "parse_content content = result (parse_lines (splitlines content))"

section \<open>\<open>RegistryStatusChecker\<close>\<close>

subsection \<open>The live registry\<close>

text \<open>
  The \<open>winreg\<close> calls are the checker's only access to the system. A call returns,
  raises \<open>FileNotFoundError\<close>, or raises another exception (carrying its text). An
  opened key is named by the root handle and sub key it was opened with.
\<close>

datatype 'a outcome = Returned 'a | FileNotFoundError | Raised string

record live =
  open_key :: "int \<Rightarrow> string \<Rightarrow> unit outcome"
  query_value :: "int \<Rightarrow> string \<Rightarrow> string outcome"
  query_value_ex :: "int \<Rightarrow> string \<Rightarrow> string \<Rightarrow> (pydata \<times> nat) outcome"

definition root_keys :: "(string \<times> int) list" where
  \<comment> \<open>the handles are the constants of \<open>winreg\<close>\<close>
  "root_keys =
     [(''HKEY_CLASSES_ROOT'', 0x80000000), (''HKEY_CURRENT_USER'', 0x80000001),
      (''HKEY_LOCAL_MACHINE'', 0x80000002), (''HKEY_USERS'', 0x80000003),
      (''HKEY_CURRENT_CONFIG'', 0x80000005)]"

function str_nat :: "nat \<Rightarrow> string" where
  "str_nat n = (if n < 10 then [char_of (48 + n)]
                else str_nat (n div 10) @ [char_of (48 + n mod 10)])"
  by pat_completeness auto
termination
  by (relation "measure id") auto

declare str_nat.simps [simp del]

definition str_int :: "int \<Rightarrow> string" where
  "str_int i = (if i < 0 then CHR ''-'' # str_nat (nat (- i)) else str_nat (nat i))"

definition reg_types :: "(nat \<times> string) list" where
  "reg_types =
     [(1, ''REG_SZ''), (2, ''REG_EXPAND_SZ''), (3, ''REG_BINARY''), (4, ''REG_DWORD''),
      (5, ''REG_DWORD_BIG_ENDIAN''), (6, ''REG_LINK''), (7, ''REG_MULTI_SZ''),
      (8, ''REG_RESOURCE_LIST''), (9, ''REG_FULL_RESOURCE_DESCRIPTOR''),
      (10, ''REG_RESOURCE_REQUIREMENTS_LIST''), (11, ''REG_QWORD'')]"

definition reg_type_name :: "nat \<Rightarrow> string" where
  "reg_type_name reg_type =
     (case map_of reg_types reg_type of
        Some t \<Rightarrow> t
      | None \<Rightarrow> ''UNKNOWN('' @ str_nat reg_type @ '')'')"

subsection \<open>The report\<close>

record value_status =
  vs_status :: string
  vs_expected :: reg_value
  vs_actual :: "reg_value option"
  vs_error :: "string option"

datatype key_error = InvalidKeyPath string | KeyCheckFailed string

text \<open>
  A key entry of the report. The entries of checked keys have \<open>'errors'\<close>; the entries
  of keys marked for deletion have \<open>'expected_deleted'\<close> and \<open>'status'\<close> instead.
\<close>

record key_status =
  ks_exists :: bool
  ks_values :: "(string \<times> value_status) list"
  ks_errors :: "key_error list option"
  ks_expected_deleted :: "bool option"
  ks_status :: "string option"

record summary =
  total_keys :: nat
  active_keys :: nat
  missing_keys :: nat
  total_values :: nat
  matching_values :: nat
  different_values :: nat
  missing_values :: nat

record status_result =
  sr_summary :: summary
  sr_keys :: "(string \<times> key_status) list"
  sr_overall_status :: string

subsection \<open>\<open>_parse_key_path\<close>, \<open>_key_exists\<close>, \<open>_compare_values\<close>\<close>

fun find_root :: "(string \<times> int) list \<Rightarrow> string \<Rightarrow> int option \<times> string" where
  "find_root [] key_path = (None, key_path)"
| "find_root ((root_name, root_handle) # rs) key_path =
     (if startswith key_path root_name
      then (Some root_handle, dropWhile (\<lambda>c. c = backslash) (drop (length root_name) key_path))
      else find_root rs key_path)"

definition parse_key_path :: "string \<Rightarrow> int option \<times> string" where
  "parse_key_path key_path = find_root root_keys key_path"

definition no_root :: "int option \<Rightarrow> bool" where
  \<comment> \<open>\<open>not root_key\<close>\<close>
  "no_root root_key = (root_key = None \<or> root_key = Some 0)"

definition key_exists :: "live \<Rightarrow> string \<Rightarrow> bool" where
  "key_exists lv key_path =
     (case parse_key_path key_path of
        (root_key, sub_key) \<Rightarrow>
          if no_root root_key then False
          else (case open_key lv (the root_key) sub_key of
                  Returned u \<Rightarrow> True
                | FileNotFoundError \<Rightarrow> False
                | Raised e \<Rightarrow> False))"

definition get_data :: "reg_value \<Rightarrow> pydata" where
  \<comment> \<open>\<open>value.get('data')\<close>\<close>
  "get_data v = (case vdata v of None \<Rightarrow> PyNone | Some d \<Rightarrow> d)"

definition int_of :: "pydata \<Rightarrow> int option" where
  \<comment> \<open>\<open>int(data)\<close>; \<open>None\<close>: it raises\<close>
  "int_of d = (case d of
       PyInt i \<Rightarrow> Some i
     | PyStr s \<Rightarrow> py_int is_space 10 s
     | PyBytes bs \<Rightarrow> py_int is_ascii_space 10 (map char_of bs)
     | _ \<Rightarrow> None)"

text \<open>
  \<open>_compare_values\<close> renders data with the built-in \<open>str\<close>; the rendering is the
  parameter \<open>str_of\<close>. An exception inside the comparison makes it return \<open>False\<close>.
\<close>

definition compare_values :: "(pydata \<Rightarrow> string) \<Rightarrow> reg_value \<Rightarrow> reg_value \<Rightarrow> bool" where
  "compare_values str_of expected actual =
     (if vtype expected \<noteq> vtype actual then False
      else
        let expected_data = get_data expected;
            actual_data = get_data actual;
            value_type = vtype expected
        in if value_type = Some ''REG_SZ'' \<or> value_type = Some ''REG_EXPAND_SZ''
           then str_of expected_data = str_of actual_data
           else if value_type = Some ''REG_DWORD'' \<or> value_type = Some ''REG_QWORD''
           then (case (int_of expected_data, int_of actual_data) of
                   (Some a, Some b) \<Rightarrow> a = b
                 | _ \<Rightarrow> False)
           else if value_type = Some ''REG_BINARY''
           then (case (expected_data, actual_data) of
                   (PyList xs, PyBytes bs) \<Rightarrow> xs = map (\<lambda>b. EInt (int b)) bs
                 | _ \<Rightarrow> expected_data = actual_data)
           else if value_type = Some ''REG_MULTI_SZ''
           then (case (expected_data, actual_data) of
                   (PyList xs, PyList ys) \<Rightarrow> xs = ys
                 | _ \<Rightarrow> str_of expected_data = str_of actual_data)
           else str_of expected_data = str_of actual_data)"

subsection \<open>\<open>_check_value_status\<close> and \<open>_check_key_status\<close>\<close>

definition read_live :: "live \<Rightarrow> int \<Rightarrow> string \<Rightarrow> string option \<Rightarrow> (pydata \<times> nat) outcome" where
  \<comment> \<open>\<open>QueryValue(reg_key, "")\<close> with type \<open>REG_SZ\<close> for the default value,
     \<open>QueryValueEx\<close> for a named one\<close>
  "read_live lv root_key sub_key value_name =
     (case value_name of
        None \<Rightarrow> (case query_value lv root_key sub_key of
                   Returned s \<Rightarrow> Returned (PyStr s, 1)
                 | FileNotFoundError \<Rightarrow> FileNotFoundError
                 | Raised e \<Rightarrow> Raised e)
      | Some n \<Rightarrow> query_value_ex lv root_key sub_key n)"

definition check_value_status ::
  "(pydata \<Rightarrow> string) \<Rightarrow> live \<Rightarrow> int \<Rightarrow> string \<Rightarrow> string option \<Rightarrow> reg_value \<Rightarrow> value_status" where
  "check_value_status str_of lv root_key sub_key value_name expected_value =
     (let value_status = \<lparr>vs_status = ''missing'', vs_expected = expected_value,
                           vs_actual = None, vs_error = None\<rparr>
      in case read_live lv root_key sub_key value_name of
           Returned (actual_value, reg_type) \<Rightarrow>
             (let actual_dict = \<lparr>vtype = Some (reg_type_name reg_type),
                                  vdata = Some actual_value, verror = None, vaction = None\<rparr>;
                  value_status = value_status\<lparr>vs_actual := Some actual_dict\<rparr>
              in if vaction expected_value = Some ''delete''
                 then value_status\<lparr>vs_status := ''should_not_exist''\<rparr>
                 else if compare_values str_of expected_value actual_dict
                 then value_status\<lparr>vs_status := ''match''\<rparr>
                 else value_status\<lparr>vs_status := ''different''\<rparr>)
         | FileNotFoundError \<Rightarrow>
             if vaction expected_value = Some ''delete''
             then value_status\<lparr>vs_status := ''correctly_deleted''\<rparr>
             else value_status\<lparr>vs_status := ''missing''\<rparr>
         | Raised e \<Rightarrow> value_status\<lparr>vs_error := Some e\<rparr>)"

definition truthy :: "reg_value option \<Rightarrow> bool" where
  \<comment> \<open>\<open>if key_data.get('default_value'):\<close> holds for a dictionary that is not empty\<close>
  "truthy d = (case d of
       None \<Rightarrow> False
     | Some v \<Rightarrow> vtype v \<noteq> None \<or> vdata v \<noteq> None \<or> verror v \<noteq> None \<or> vaction v \<noteq> None)"

definition missing_entry :: "reg_value \<Rightarrow> value_status" where
  "missing_entry expected_value =
     \<lparr>vs_status = ''missing'', vs_expected = expected_value, vs_actual = None, vs_error = None\<rparr>"

definition fill_values ::
  "(string option \<Rightarrow> reg_value \<Rightarrow> value_status) \<Rightarrow> key_entry \<Rightarrow> (string \<times> value_status) list" where
  \<comment> \<open>the default value under \<open>'@default'\<close>, then the named values in their order, each
     assigned into the same dictionary\<close>
  "fill_values f key_data =
     foldl (\<lambda>vs (value_name, expected_value).
              AList.update value_name (f (Some value_name) expected_value) vs)
       (if truthy (k_default_value key_data)
        then [(''@default'', f None (the (k_default_value key_data)))] else [])
       (k_values key_data)"

definition check_key_status ::
  "(pydata \<Rightarrow> string) \<Rightarrow> live \<Rightarrow> string \<Rightarrow> key_entry \<Rightarrow> key_status" where
  "check_key_status str_of lv key_path key_data =
     (let key_status = \<lparr>ks_exists = False, ks_values = [], ks_errors = Some [],
                         ks_expected_deleted = None, ks_status = None\<rparr>
      in case parse_key_path key_path of
           (root_key, sub_key) \<Rightarrow>
             if no_root root_key
             then key_status\<lparr>ks_errors := Some [InvalidKeyPath key_path]\<rparr>
             else (case open_key lv (the root_key) sub_key of
                     Returned u \<Rightarrow>
                       key_status\<lparr>ks_exists := True,
                         ks_values := fill_values
                           (check_value_status str_of lv (the root_key) sub_key) key_data\<rparr>
                   | FileNotFoundError \<Rightarrow>
                       key_status\<lparr>ks_exists := False,
                         ks_values := fill_values (\<lambda>n. missing_entry) key_data\<rparr>
                   | Raised e \<Rightarrow> key_status\<lparr>ks_errors := Some [KeyCheckFailed e]\<rparr>))"

subsection \<open>\<open>_calculate_overall_status\<close> and \<open>check_file_status\<close>\<close>

definition calculate_overall_status :: "summary \<Rightarrow> string" where
  "calculate_overall_status s =
     (if total_values s = 0 then ''unknown''
      else if matching_values s = total_values s then ''all_active''
      else if matching_values s = 0 then ''all_inactive''
      else ''partial'')"

definition count_value :: "summary \<Rightarrow> value_status \<Rightarrow> summary" where
  "count_value s value_status =
     (let s = s\<lparr>total_values := total_values s + 1\<rparr>
      in if vs_status value_status = ''match''
         then s\<lparr>matching_values := matching_values s + 1\<rparr>
         else if vs_status value_status = ''different''
         then s\<lparr>different_values := different_values s + 1\<rparr>
         else s\<lparr>missing_values := missing_values s + 1\<rparr>)"

definition count_key :: "summary \<Rightarrow> key_status \<Rightarrow> summary" where
  "count_key s key_status =
     (let s = s\<lparr>total_keys := total_keys s + 1\<rparr>;
          s = (if ks_exists key_status then s\<lparr>active_keys := active_keys s + 1\<rparr>
               else s\<lparr>missing_keys := missing_keys s + 1\<rparr>)
      in foldl count_value s (map snd (ks_values key_status)))"

definition check_one ::
  "(pydata \<Rightarrow> string) \<Rightarrow> live \<Rightarrow> status_result \<Rightarrow> string \<times> key_entry \<Rightarrow> status_result" where
  \<comment> \<open>the body of the loop over the document's keys\<close>
  "check_one str_of lv sr kv =
     (let key_status = check_key_status str_of lv (fst kv) (snd kv)
      in sr\<lparr>sr_keys := AList.update (fst kv) key_status (sr_keys sr),
            sr_summary := count_key (sr_summary sr) key_status\<rparr>)"

definition check_deleted :: "live \<Rightarrow> status_result \<Rightarrow> string \<Rightarrow> status_result" where
  \<comment> \<open>the body of the loop over the keys marked for deletion\<close>
  "check_deleted lv sr deleted_key =
     (let exists = key_exists lv deleted_key
      in sr\<lparr>sr_keys := AList.update deleted_key
              \<lparr>ks_exists = exists, ks_values = [], ks_errors = None,
               ks_expected_deleted = Some True,
               ks_status = Some (if exists then ''should_not_exist'' else ''correctly_deleted'')\<rparr>
              (sr_keys sr)\<rparr>)"

definition empty_summary :: summary where
  "empty_summary = \<lparr>total_keys = 0, active_keys = 0, missing_keys = 0, total_values = 0,
                    matching_values = 0, different_values = 0, missing_values = 0\<rparr>"

definition check_parsed :: "(pydata \<Rightarrow> string) \<Rightarrow> live \<Rightarrow> parsed \<Rightarrow> status_result" where
  \<comment> \<open>\<open>check_file_status\<close> from the parsed data on\<close>
  "check_parsed str_of lv parsed_data =
     (let sr = \<lparr>sr_summary = empty_summary, sr_keys = [], sr_overall_status = []\<rparr>;
          sr = foldl (check_one str_of lv) sr (p_keys parsed_data);
          sr = foldl (check_deleted lv) sr (p_deleted_keys parsed_data)
      in sr\<lparr>sr_overall_status := calculate_overall_status (sr_summary sr)\<rparr>)"

definition check_file_status :: "(pydata \<Rightarrow> string) \<Rightarrow> live \<Rightarrow> string \<Rightarrow> status_result" where
  \<comment> \<open>the argument is the text that \<open>parse_file\<close> has read\<close>
  "check_file_status str_of lv content = check_parsed str_of lv (parse_content content)"

section \<open>\<open>RegFileCreator\<close>\<close>

function hex_nat :: "nat \<Rightarrow> string" where
  "hex_nat n = (if n < 16 then [''0123456789abcdef'' ! n]
                else hex_nat (n div 16) @ [''0123456789abcdef'' ! (n mod 16)])"
  by pat_completeness auto
termination
  by (relation "measure id") auto

declare hex_nat.simps [simp del]

definition format_hex :: "nat \<Rightarrow> int \<Rightarrow> string" where
  \<comment> \<open>the format \<open>0\<close>\<open>w\<close>\<open>x\<close>: zero padding to width \<open>w\<close>, the sign counted in the width\<close>
  "format_hex w i =
     (let ds = hex_nat (nat \<bar>i\<bar>)
      in if i < 0 then CHR ''-'' # replicate (w - 1 - length ds) (CHR ''0'') @ ds
         else replicate (w - length ds) (CHR ''0'') @ ds)"

datatype raw_value = RawStr string | RawInt int | RawOther pydata | RawDict reg_value

fun hex_values :: "pyelem list \<Rightarrow> string list option" where
  \<comment> \<open>\<open>[f"{b:02x}" for b in data]\<close>; the format raises on an element that is no number\<close>
  "hex_values [] = Some []"
| "hex_values (EInt b # bs) = map_option ((#) (format_hex 2 b)) (hex_values bs)"
| "hex_values (EStr s # bs) = None"

function chunk_lines :: "string list \<Rightarrow> string list" where
  \<comment> \<open>the loop \<open>for i in range(0, len(hex_values), 16)\<close>\<close>
  "chunk_lines hv =
     (if hv = [] then []
      else if 16 < length hv
      then (join '','' (take 16 hv) @ [CHR '','', backslash]) # chunk_lines (drop 16 hv)
      else [join '','' hv])"
  by pat_completeness auto
termination
  by (relation "measure length") auto

declare chunk_lines.simps [simp del]

definition str_elem :: "pyelem \<Rightarrow> string" where
  "str_elem e = (case e of EStr s \<Rightarrow> s | EInt i \<Rightarrow> str_int i)"

definition utf16 :: "string \<Rightarrow> int list" where
  \<comment> \<open>\<open>[ord(char) & 0xFF, (ord(char) >> 8) & 0xFF]\<close> for each character\<close>
  "utf16 s = concat (map (\<lambda>c. [int (of_char c mod 256), int (of_char c div 256 mod 256)]) s)"

definition format_value :: "(pydata \<Rightarrow> string) \<Rightarrow> raw_value \<Rightarrow> string option" where
  \<comment> \<open>\<open>None\<close>: the call raises\<close>
  "format_value str_of value_data =
     (case value_data of
        RawStr s \<Rightarrow> Some ([dquote] @ s @ [dquote])
      | RawInt i \<Rightarrow> Some (''dword:'' @ format_hex 8 i)
      | RawOther d \<Rightarrow> Some ([dquote] @ str_of d @ [dquote])
      | RawDict v \<Rightarrow>
          let value_type = (case vtype v of None \<Rightarrow> ''REG_SZ'' | Some t \<Rightarrow> t);
              data = get_data v
          in if value_type = ''REG_SZ''
             then (if data = PyNone then Some [dquote, dquote]
                   else Some ([dquote] @ replace [dquote] [backslash, dquote] (str_of data)
                              @ [dquote]))
             else if value_type = ''REG_DWORD''
             then (case data of
                     PyInt i \<Rightarrow> Some (''dword:'' @ format_hex 8 i)
                   | _ \<Rightarrow> Some ''dword:00000000'')
             else if value_type = ''REG_QWORD''
             then (case data of
                     PyInt i \<Rightarrow> Some (''qword:'' @ format_hex 16 i)
                   | _ \<Rightarrow> Some ''qword:0000000000000000'')
             else if value_type = ''REG_BINARY''
             then (case data of
                     PyList bs \<Rightarrow>
                       (case hex_values bs of
                          None \<Rightarrow> None
                        | Some hv \<Rightarrow>
                            if length hv \<le> 8 then Some (''hex:'' @ join '','' hv)
                            else (let lines = chunk_lines hv
                                  in Some (''hex:'' @ hd lines @ [newline] @ ''  ''
                                           @ join ([newline] @ ''  '') (tl lines))))
                   | _ \<Rightarrow> Some ''hex:'')
             else if value_type = ''REG_MULTI_SZ''
             then (case data of
                     PyList strings \<Rightarrow>
                       Some (''hex(7):'' @ join '',''
                         (map (format_hex 2)
                            (concat (map (\<lambda>e. utf16 (str_elem e) @ [0, 0]) strings) @ [0, 0])))
                   | _ \<Rightarrow> Some ''hex(7):00,00'')
             else if value_type = ''REG_EXPAND_SZ''
             then Some (''hex(2):'' @ join '',''
                    (map (format_hex 2)
                       (if data = PyNone then [0, 0] else utf16 (str_of data) @ [0, 0])))
             else Some ([dquote] @ str_of data @ [dquote]))"

fun sequence :: "'a option list \<Rightarrow> 'a list option" where
  "sequence [] = Some []"
| "sequence (None # xs) = None"
| "sequence (Some x # xs) = map_option ((#) x) (sequence xs)"

definition named_line :: "(pydata \<Rightarrow> string) \<Rightarrow> string \<times> reg_value \<Rightarrow> string option" where
  "named_line str_of nv =
     (if vaction (snd nv) = Some ''delete'' then Some ([dquote] @ fst nv @ [dquote] @ ''=-'')
      else map_option (\<lambda>value_str. [dquote] @ fst nv @ [dquote] @ ''='' @ value_str)
             (format_value str_of (RawDict (snd nv))))"

definition key_lines :: "(pydata \<Rightarrow> string) \<Rightarrow> string \<times> key_entry \<Rightarrow> string list option" where
  "key_lines str_of kd =
     (case sequence
             ((case k_default_value (snd kd) of
                 None \<Rightarrow> []
               | Some d \<Rightarrow> [map_option (\<lambda>value_str. ''@='' @ value_str)
                              (format_value str_of (RawDict d))])
              @ map (named_line str_of) (k_values (snd kd))) of
        None \<Rightarrow> None
      | Some ls \<Rightarrow> Some ([''['' @ fst kd @ '']''] @ ls @ [[]]))"

definition header_lines :: "string \<Rightarrow> string option \<Rightarrow> string option \<Rightarrow> string list" where
  \<comment> \<open>the comment block; \<open>now\<close> is the formatted time of the call\<close>
  "header_lines now title description =
     (let has_title = (title \<noteq> None \<and> title \<noteq> Some []);
          has_description = (description \<noteq> None \<and> description \<noteq> Some [])
      in if has_title \<or> has_description
         then [''; =========================================='']
              @ (if has_title then [''; '' @ the title] else [])
              @ (if has_description
                 then [''; ''] @ map (\<lambda>desc_line. ''; '' @ desc_line) (split newline (the description))
                 else [])
              @ [''; '', ''; Erstellt am: '' @ now,
                 ''; =========================================='', []]
         else [])"

definition generate_content ::
  "(pydata \<Rightarrow> string) \<Rightarrow> string \<Rightarrow> parsed \<Rightarrow> string option \<Rightarrow> string option \<Rightarrow> string option" where
  \<comment> \<open>\<open>_generate_content\<close> on a document whose values are dictionaries; \<open>None\<close>: it raises\<close>
  "generate_content str_of now registry_data title description =
     (case sequence (map (key_lines str_of) (p_keys registry_data)) of
        None \<Rightarrow> None
      | Some sections \<Rightarrow>
          Some (join [newline]
            ([''Windows Registry Editor Version 5.00'', []]
             @ header_lines now title description
             @ concat sections
             @ concat (map (\<lambda>deleted_key. [''[-'' @ deleted_key @ '']'', []])
                         (p_deleted_keys registry_data)))))"

section \<open>Example inputs\<close>

definition obsolete_text :: string where
  \<comment> \<open>the one line \<open>[-HKEY_CURRENT_USER\Software\Obsolete]\<close>\<close>
  "obsolete_text =
     ''[-HKEY_CURRENT_USER'' @ [backslash] @ ''Software'' @ [backslash] @ ''Obsolete]''"

definition obsolete_key :: string where
  "obsolete_key =
     ''-HKEY_CURRENT_USER'' @ [backslash] @ ''Software'' @ [backslash] @ ''Obsolete''"

definition every_key_exists :: live where
  \<comment> \<open>a registry in which every key opens and no value is found\<close>
  "every_key_exists =
     \<lparr>open_key = (\<lambda>root_key sub_key. Returned ()),
      query_value = (\<lambda>root_key sub_key. FileNotFoundError),
      query_value_ex = (\<lambda>root_key sub_key value_name. FileNotFoundError)\<rparr>"

definition every_value_exists :: live where
  \<comment> \<open>a registry in which every key opens and every value is the text \<open>x\<close>\<close>
  "every_value_exists =
     \<lparr>open_key = (\<lambda>root_key sub_key. Returned ()),
      query_value = (\<lambda>root_key sub_key. Returned ''x''),
      query_value_ex = (\<lambda>root_key sub_key value_name. Returned (PyStr ''x'', 1))\<rparr>"

definition no_key_exists :: live where
  \<comment> \<open>a registry in which no key is found; reading a value would fail\<close>
  "no_key_exists =
     \<lparr>open_key = (\<lambda>root_key sub_key. FileNotFoundError),
      query_value = (\<lambda>root_key sub_key. Raised ''read''),
      query_value_ex = (\<lambda>root_key sub_key value_name. Raised ''read'')\<rparr>"

definition test_key :: string where
  "test_key = ''HKEY_CURRENT_USER'' @ [backslash] @ ''Software'' @ [backslash] @ ''Test''"

definition delete_flag_text :: string where
  \<comment> \<open>the key \<open>HKEY_CURRENT_USER\Software\Test\<close> with the line \<open>"Flag"=-\<close>\<close>
  "delete_flag_text =
     ''['' @ test_key @ '']'' @ [newline] @ [dquote] @ ''Flag'' @ [dquote] @ ''=-''"

definition single_value :: "string \<Rightarrow> pydata \<Rightarrow> parsed" where
  \<comment> \<open>a document of one key \<open>K\<close> with one value \<open>v\<close> of the given type and data\<close>
  "single_value value_type data =
     \<lparr>p_version = Some ''Windows Registry Editor Version 5.00'',
      p_keys = [(''K'', \<lparr>k_values = [(''v'', \<lparr>vtype = Some value_type, vdata = Some data,
                                              verror = None, vaction = None\<rparr>)],
                        k_default_value = None\<rparr>)],
      p_deleted_keys = [], p_errors = []\<rparr>"

definition bytes20 :: "pyelem list" where
  "bytes20 = map EInt [0, 1, 2, 3, 4, 5, 6, 7, 8, 9, 10, 11, 12, 13, 14, 15, 16, 17, 18, 19]"


definition known_root :: "string \<Rightarrow> bool" where
  \<comment> \<open>the path begins with one of the root names\<close>
  "known_root key_path = list_ex (\<lambda>r. startswith key_path (fst r)) root_keys"

definition invalid_entry :: "string \<Rightarrow> key_status" where
  \<comment> \<open>the report entry of a key whose path has no known root\<close>
  "invalid_entry key_path =
     \<lparr>ks_exists = False, ks_values = [], ks_errors = Some [InvalidKeyPath key_path],
      ks_expected_deleted = None, ks_status = None\<rparr>"

definition two_keys_text :: string where
  \<comment> \<open>the key \<open>Bogus\Key\<close> followed by the key \<open>HKEY_CURRENT_USER\Software\Test\<close>
     with the line \<open>"Flag"=dword:00000001\<close>\<close>
  "two_keys_text =
     ''[Bogus'' @ [backslash] @ ''Key]'' @ [newline] @ ''['' @ test_key @ '']'' @ [newline]
     @ [dquote] @ ''Flag'' @ [dquote] @ ''=dword:00000001''"

definition bogus_key :: string where
  "bogus_key = ''Bogus'' @ [backslash] @ ''Key''"

definition plain_str :: "pydata \<Rightarrow> string" where
  \<comment> \<open>the built-in \<open>str\<close> on \<open>None\<close>, numbers and text, used to run the examples; the
     examples render no list and no bytes object\<close>
  "plain_str d = (case d of
       PyNone \<Rightarrow> ''None''
     | PyInt i \<Rightarrow> str_int i
     | PyStr s \<Rightarrow> s
     | _ \<Rightarrow> [])"




definition test_sub_key :: string where
  "test_sub_key = ''Software'' @ [backslash] @ ''Test''"

definition shadow_text :: string where
  \<comment> \<open>the key \<open>HKEY_CURRENT_USER\Software\Test\<close> with the lines \<open>@="d"\<close> and
     \<open>"@default"="n"\<close>\<close>
  "shadow_text =
     ''['' @ test_key @ '']'' @ [newline] @ ''@='' @ [dquote] @ ''d'' @ [dquote] @ [newline]
     @ [dquote] @ ''@default'' @ [dquote] @ ''='' @ [dquote] @ ''n'' @ [dquote]"

definition typed_entry :: "key_entry \<Rightarrow> bool" where
  \<comment> \<open>the value names are distinct, as the keys of a dictionary are, and the default
     value carries a type\<close>
  "typed_entry e =
     (distinct (map fst (k_values e))
      \<and> (case k_default_value e of None \<Rightarrow> True | Some d \<Rightarrow> vtype d \<noteq> None))"

definition well_formed :: "parsed \<Rightarrow> bool" where
  "well_formed r =
     (distinct (map fst (p_keys r)) \<and> list_all (\<lambda>kv. typed_entry (snd kv)) (p_keys r))"

definition not_found_entry :: "key_entry \<Rightarrow> key_status" where
  \<comment> \<open>the report entry of a key that the registry does not have\<close>
  "not_found_entry key_data =
     \<lparr>ks_exists = False, ks_values = fill_values (\<lambda>n. missing_entry) key_data,
      ks_errors = Some [], ks_expected_deleted = None, ks_status = None\<rparr>"


definition tally :: "key_status list \<Rightarrow> summary" where
  \<comment> \<open>the counts read off a list of key entries: every key once, by \<open>exists\<close>; every
     value entry once, by its status\<close>
  "tally kss =
     \<lparr>total_keys = length kss,
      active_keys = length (filter ks_exists kss),
      missing_keys = length (filter (\<lambda>ks. \<not> ks_exists ks) kss),
      total_values = sum_list (map (\<lambda>ks. length (ks_values ks)) kss),
      matching_values =
        sum_list (map (\<lambda>ks. length (filter (\<lambda>v. vs_status (snd v) = ''match'') (ks_values ks))) kss),
      different_values =
        sum_list (map (\<lambda>ks. length (filter (\<lambda>v. vs_status (snd v) = ''different'') (ks_values ks))) kss),
      missing_values =
        sum_list (map (\<lambda>ks. length (filter (\<lambda>v. vs_status (snd v) \<noteq> ''match''
                                                \<and> vs_status (snd v) \<noteq> ''different'') (ks_values ks))) kss)\<rparr>"

definition mixed_registry :: live where
  \<comment> \<open>a registry in which every key opens, the value \<open>C\<close> is not found and every other
     value is the text \<open>x\<close>\<close>
  "mixed_registry =
     \<lparr>open_key = (\<lambda>root_key sub_key. Returned ()),
      query_value = (\<lambda>root_key sub_key. Returned ''x''),
      query_value_ex = (\<lambda>root_key sub_key value_name.
         if value_name = ''C'' then FileNotFoundError else Returned (PyStr ''x'', 1))\<rparr>"

definition three_values_text :: string where
  \<comment> \<open>the key \<open>Bogus\Key\<close>, then the key \<open>HKEY_CURRENT_USER\Software\Test\<close> with the
     lines \<open>"A"="x"\<close>, \<open>"B"="y"\<close> and \<open>"C"="z"\<close>\<close>
  "three_values_text =
     ''[Bogus'' @ [backslash] @ ''Key]'' @ [newline] @ ''['' @ test_key @ '']'' @ [newline]
     @ [dquote] @ ''A'' @ [dquote] @ ''='' @ [dquote] @ ''x'' @ [dquote] @ [newline]
     @ [dquote] @ ''B'' @ [dquote] @ ''='' @ [dquote] @ ''y'' @ [dquote] @ [newline]
     @ [dquote] @ ''C'' @ [dquote] @ ''='' @ [dquote] @ ''z'' @ [dquote]"




section \<open>Deleted keys\<close>

lemma delete_key_shadowed: "key_pattern l = None \<Longrightarrow> delete_key_pattern l = None"
  unfolding key_pattern_def delete_key_pattern_def at_end_def bracketed_def
  by (auto split: list.splits option.splits if_splits)

lemma parse_line_deleted_keys:
  "p_deleted_keys (result st) = [] \<Longrightarrow> p_deleted_keys (result (parse_line st l)) = []"
  unfolding parse_line_def Let_def unknown_line_def add_error_def value_line_def with_key_def
  by (auto split: option.splits dest: delete_key_shadowed)

lemma foldl_parse_line_deleted_keys:
  "p_deleted_keys (result st) = [] \<Longrightarrow> p_deleted_keys (result (foldl parse_line st ls)) = []"
  by (induction ls arbitrary: st) (simp_all add: parse_line_deleted_keys)

lemma parse_content_deleted_keys: "p_deleted_keys (parse_content content) = []"
  unfolding parse_content_def parse_lines_def
  by (rule foldl_parse_line_deleted_keys) (simp add: initial_def)

text \<open>
  C1. A line \<open>[-KEY_PATH]\<close> should be recorded in the deleted-key set and not open a value
  context, so that a check reports it with \<open>expected_deleted\<close>. The parser tries the
  pattern of ordinary keys first, and that pattern matches the line: the text
  \<open>[-HKEY_CURRENT_USER\Software\Obsolete]\<close> yields the ordinary key
  \<open>-HKEY_CURRENT_USER\Software\Obsolete\<close> and no deleted key, and the check of a
  registry in which every key exists reports that key as an invalid path.
\<close>

theorem delete_key_line_becomes_key:
  "parse_content obsolete_text =
     \<lparr>p_version = None, p_keys = [(obsolete_key, empty_key)], p_deleted_keys = [],
      p_errors = []\<rparr>
   \<and> sr_keys (check_file_status str_of every_key_exists obsolete_text) =
       [(obsolete_key,
         \<lparr>ks_exists = False, ks_values = [], ks_errors = Some [InvalidKeyPath obsolete_key],
          ks_expected_deleted = None, ks_status = None\<rparr>)]"
  by code_simp

section \<open>Serialising and parsing again\<close>

text \<open>
  C2. Parsing the serialiser's output should give back the value. For the
  \<open>REG_MULTI_SZ\<close> value \<open>["a", "b"]\<close> the serialiser writes a \<open>hex(7):\<close> line, and the
  parser returns its ten bytes, not the two strings.
\<close>

theorem multi_sz_reparsed_as_bytes:
  "map_option parse_content
     (generate_content str_of now (single_value ''REG_MULTI_SZ'' (PyList [EStr ''a'', EStr ''b''])) None None)
   = Some (single_value ''REG_MULTI_SZ''
             (PyList (map EInt [0x61, 0, 0, 0, 0x62, 0, 0, 0, 0, 0])))"
  by code_simp

lemma other_tags_reparsed:
  "map_option parse_content
     (generate_content plain_str now (single_value ''REG_EXPAND_SZ'' (PyStr ''a'')) None None)
   = Some (single_value ''REG_EXPAND_SZ'' (PyList (map EInt [0x61, 0, 0, 0])))"
  "map_option parse_content
     (generate_content plain_str now (single_value ''DELETE'' PyNone) None None)
   = Some (single_value ''REG_SZ'' (PyStr ''None''))"
  by code_simp+

lemma round_trip_examples:
  "map_option parse_content
     (generate_content plain_str now (single_value ''REG_SZ'' (PyStr (''a'' @ [dquote] @ ''b''))) None None)
   = Some (single_value ''REG_SZ'' (PyStr (''a'' @ [dquote] @ ''b'')))"
  "map_option parse_content
     (generate_content plain_str now (single_value ''REG_DWORD'' (PyInt 1)) None None)
   = Some (single_value ''REG_DWORD'' (PyInt 1))"
  "map_option parse_content
     (generate_content plain_str now (single_value ''REG_BINARY'' (PyList (take 16 bytes20))) None None)
   = Some (single_value ''REG_BINARY'' (PyList (take 16 bytes20)))"
  by code_simp+

text \<open>
  C3. A \<open>REG_BINARY\<close> value of 20 bytes should survive serialising and parsing. The
  serialiser breaks the line after 16 bytes; the parser keeps the 16 bytes of the first
  line and records the second line as an error.
\<close>

theorem binary_continuation_lost:
  "map_option parse_content
     (generate_content str_of now (single_value ''REG_BINARY'' (PyList bytes20)) None None)
   = Some ((single_value ''REG_BINARY'' (PyList (take 16 bytes20)))
             \<lparr>p_errors := [UnknownFormat 5 ''10,11,12,13'']\<rparr>)"
  by code_simp

section \<open>Values marked for deletion\<close>

lemma parse_value_no_action: "vaction (parse_value raw) = None"
  unfolding parse_value_def number_value_def hex_value_def Let_def
  by (simp split: option.splits sum.splits prod.splits)

lemma check_value_status_no_action:
  "vaction expected_value \<noteq> Some ''delete'' \<Longrightarrow>
   vs_status (check_value_status str_of lv root_key sub_key value_name expected_value)
     \<in> {''match'', ''different'', ''missing''}"
  unfolding check_value_status_def Let_def
  by (simp split: outcome.splits prod.splits)

text \<open>
  C4. A value parsed from \<open>"name"=-\<close> should be \<open>correctly_deleted\<close> when the live read
  finds nothing and \<open>should_not_exist\<close> when it finds a value. The checker looks for
  \<open>'action': 'delete'\<close>, which the parser never writes (it writes the type \<open>DELETE\<close>):
  for the line \<open>"Flag"=-\<close> the two statuses are \<open>missing\<close> and \<open>different\<close>.
\<close>

theorem delete_value_statuses:
  "map (\<lambda>kv. ks_values (snd kv)) (sr_keys (check_file_status str_of every_key_exists delete_flag_text)) =
     [[(''Flag'', \<lparr>vs_status = ''missing'', vs_expected = delete_marker, vs_actual = None,
                  vs_error = None\<rparr>)]]
   \<and> map (\<lambda>kv. ks_values (snd kv)) (sr_keys (check_file_status str_of every_value_exists delete_flag_text)) =
     [[(''Flag'', \<lparr>vs_status = ''different'', vs_expected = delete_marker,
                  vs_actual = Some \<lparr>vtype = Some ''REG_SZ'', vdata = Some (PyStr ''x''),
                                    verror = None, vaction = None\<rparr>,
                  vs_error = None\<rparr>)]]"
  by code_simp

section \<open>Overall status\<close>

text \<open>
  C5. The overall status is a function of the summary alone: \<open>unknown\<close> if no value was
  counted, else \<open>all_active\<close> if all values match, else \<open>all_inactive\<close> if none does, else
  \<open>partial\<close>.
\<close>

theorem overall_status_derivation:
  "calculate_overall_status s =
     (if total_values s = 0 then ''unknown''
      else if matching_values s = total_values s then ''all_active''
      else if matching_values s = 0 then ''all_inactive''
      else ''partial'')"
  by (simp add: calculate_overall_status_def)

theorem overall_status_table:
  "calculate_overall_status empty_summary = ''unknown''
   \<and> calculate_overall_status (empty_summary\<lparr>total_values := 4, matching_values := 4\<rparr>) = ''all_active''
   \<and> calculate_overall_status (empty_summary\<lparr>total_values := 4, matching_values := 0\<rparr>) = ''all_inactive''
   \<and> calculate_overall_status (empty_summary\<lparr>total_values := 4, matching_values := 2\<rparr>) = ''partial''"
  using overall_status_derivation [of empty_summary]
    overall_status_derivation [of "empty_summary\<lparr>total_values := 4, matching_values := 4\<rparr>"]
    overall_status_derivation [of "empty_summary\<lparr>total_values := 4, matching_values := 0\<rparr>"]
    overall_status_derivation [of "empty_summary\<lparr>total_values := 4, matching_values := 2\<rparr>"]
  by (simp add: empty_summary_def)

section \<open>Numbers that are not hexadecimal\<close>







section \<open>The summary\<close>

lemma count_value_fields:
  "total_keys (count_value s v) = total_keys s
   \<and> active_keys (count_value s v) = active_keys s
   \<and> missing_keys (count_value s v) = missing_keys s
   \<and> total_values (count_value s v) = total_values s + 1
   \<and> matching_values (count_value s v) =
       matching_values s + (if vs_status v = ''match'' then 1 else 0)
   \<and> different_values (count_value s v) =
       different_values s + (if vs_status v = ''different'' then 1 else 0)
   \<and> missing_values (count_value s v) =
       missing_values s + (if vs_status v \<noteq> ''match'' \<and> vs_status v \<noteq> ''different'' then 1 else 0)"
  by (simp add: count_value_def Let_def)

lemma foldl_count_value_keys:
  "total_keys (foldl count_value s vs) = total_keys s
   \<and> active_keys (foldl count_value s vs) = active_keys s
   \<and> missing_keys (foldl count_value s vs) = missing_keys s"
  by (induction vs arbitrary: s) (simp_all add: count_value_fields)

lemma foldl_count_value_balanced:
  "total_values s = matching_values s + different_values s + missing_values s \<Longrightarrow>
   total_values (foldl count_value s vs) =
     matching_values (foldl count_value s vs) + different_values (foldl count_value s vs)
     + missing_values (foldl count_value s vs)"
proof (induction vs arbitrary: s)
  case Nil
  then show ?case by simp
next
  case (Cons v vs)
  have "total_values (count_value s v) =
          matching_values (count_value s v) + different_values (count_value s v)
          + missing_values (count_value s v)"
    using Cons.prems by (simp add: count_value_fields)
  then show ?case
    using Cons.IH by simp
qed

lemma count_key_total: "total_keys (count_key s ks) = total_keys s + 1"
  by (simp add: count_key_def Let_def foldl_count_value_keys)

lemma count_key_balanced:
  assumes "total_keys s = active_keys s + missing_keys s"
    and "total_values s = matching_values s + different_values s + missing_values s"
  shows "total_keys (count_key s ks) = active_keys (count_key s ks) + missing_keys (count_key s ks)
       \<and> total_values (count_key s ks) =
           matching_values (count_key s ks) + different_values (count_key s ks)
           + missing_values (count_key s ks)"
proof -
  define s' where
    "s' = (if ks_exists ks then s\<lparr>total_keys := total_keys s + 1, active_keys := active_keys s + 1\<rparr>
           else s\<lparr>total_keys := total_keys s + 1, missing_keys := missing_keys s + 1\<rparr>)"
  have eq: "count_key s ks = foldl count_value s' (map snd (ks_values ks))"
    by (simp add: count_key_def Let_def s'_def)
  have k: "total_keys s' = active_keys s' + missing_keys s'"
    using assms(1) by (simp add: s'_def)
  have v: "total_values s' = matching_values s' + different_values s' + missing_values s'"
    using assms(2) by (simp add: s'_def)
  show ?thesis
    unfolding eq using k foldl_count_value_balanced [OF v]
    by (simp add: foldl_count_value_keys)
qed

lemma foldl_check_one_balanced:
  assumes "total_keys (sr_summary sr) = active_keys (sr_summary sr) + missing_keys (sr_summary sr)"
    and "total_values (sr_summary sr) =
           matching_values (sr_summary sr) + different_values (sr_summary sr)
           + missing_values (sr_summary sr)"
  shows "total_keys (sr_summary (foldl (check_one str_of lv) sr kvs)) =
           active_keys (sr_summary (foldl (check_one str_of lv) sr kvs))
           + missing_keys (sr_summary (foldl (check_one str_of lv) sr kvs))
       \<and> total_values (sr_summary (foldl (check_one str_of lv) sr kvs)) =
           matching_values (sr_summary (foldl (check_one str_of lv) sr kvs))
           + different_values (sr_summary (foldl (check_one str_of lv) sr kvs))
           + missing_values (sr_summary (foldl (check_one str_of lv) sr kvs))"
  using assms
proof (induction kvs arbitrary: sr)
  case Nil
  then show ?case by simp
next
  case (Cons kv kvs)
  have "sr_summary (check_one str_of lv sr kv) =
          count_key (sr_summary sr) (check_key_status str_of lv (fst kv) (snd kv))"
    by (simp add: check_one_def Let_def)
  with count_key_balanced [OF Cons.prems] Cons.IH [of "check_one str_of lv sr kv"]
  show ?case by simp
qed

lemma foldl_check_deleted_summary:
  "sr_summary (foldl (check_deleted lv) sr ds) = sr_summary sr"
  by (induction ds arbitrary: sr) (simp_all add: check_deleted_def Let_def)

section \<open>Keys without a known root\<close>

lemma find_root_none:
  "\<not> list_ex (\<lambda>r. startswith key_path (fst r)) rs \<Longrightarrow> find_root rs key_path = (None, key_path)"
  by (induction rs) auto

lemma check_key_status_no_root:
  "\<not> known_root key_path \<Longrightarrow>
   check_key_status str_of lv key_path key_data = invalid_entry key_path"
  by (simp add: check_key_status_def parse_key_path_def known_root_def find_root_none
      no_root_def invalid_entry_def)

lemma foldl_check_one_keys:
  "fst ` set (sr_keys (foldl (check_one str_of lv) sr kvs)) =
     fst ` set (sr_keys sr) \<union> fst ` set kvs"
  by (induction kvs arbitrary: sr) (auto simp: check_one_def Let_def dom_update)

lemma foldl_check_one_total:
  "total_keys (sr_summary (foldl (check_one str_of lv) sr kvs)) =
     total_keys (sr_summary sr) + length kvs"
  by (induction kvs arbitrary: sr) (simp_all add: check_one_def Let_def count_key_total)

lemma foldl_check_one_no_root:
  "key_path \<in> fst ` set kvs \<Longrightarrow> \<not> known_root key_path \<Longrightarrow>
   map_of (sr_keys (foldl (check_one str_of lv) sr kvs)) key_path = Some (invalid_entry key_path)"
proof (induction kvs arbitrary: sr rule: rev_induct)
  case Nil
  then show ?case by simp
next
  case (snoc kv kvs)
  show ?case
  proof (cases "fst kv = key_path")
    case True
    then show ?thesis
      using snoc.prems(2)
      by (simp add: check_one_def Let_def update_conv' check_key_status_no_root)
  next
    case False
    with snoc.prems have "key_path \<in> fst ` set kvs" by auto
    with snoc.IH snoc.prems(2) False show ?thesis
      by (simp add: check_one_def Let_def update_conv')
  qed
qed

lemma check_file_status_keys:
  "sr_keys (check_file_status str_of lv content) =
     sr_keys (foldl (check_one str_of lv)
       \<lparr>sr_summary = empty_summary, sr_keys = [], sr_overall_status = []\<rparr>
       (p_keys (parse_content content)))"
  by (simp add: check_file_status_def check_parsed_def Let_def parse_content_deleted_keys)

lemma check_file_status_summary:
  "sr_summary (check_file_status str_of lv content) =
     sr_summary (foldl (check_one str_of lv)
       \<lparr>sr_summary = empty_summary, sr_keys = [], sr_overall_status = []\<rparr>
       (p_keys (parse_content content)))"
  by (simp add: check_file_status_def check_parsed_def Let_def parse_content_deleted_keys)

text \<open>
  C9. For a document key whose path does not begin with a known root name, the check
  of the key returns (it does not throw) an entry with \<open>exists = False\<close>, no values and
  the recorded error \<open>InvalidKeyPath\<close>, whatever the live registry does; that entry is
  in the report, and the report covers every key of the document.
\<close>

theorem unknown_root_reported:
  assumes "\<not> known_root key_path"
  shows "check_key_status str_of lv key_path key_data = invalid_entry key_path
       \<and> (key_path \<in> fst ` set (p_keys (parse_content content)) \<longrightarrow>
            map_of (sr_keys (check_file_status str_of lv content)) key_path
              = Some (invalid_entry key_path)
            \<and> fst ` set (sr_keys (check_file_status str_of lv content))
              = fst ` set (p_keys (parse_content content))
            \<and> total_keys (sr_summary (check_file_status str_of lv content))
              = length (p_keys (parse_content content)))"
  using assms
  by (simp add: check_key_status_no_root check_file_status_keys check_file_status_summary
      foldl_check_one_no_root foldl_check_one_keys foldl_check_one_total empty_summary_def)

theorem unknown_root_reported_witness:
  "\<not> known_root bogus_key
   \<and> map fst (p_keys (parse_content two_keys_text)) = [bogus_key, test_key]
   \<and> map_of (sr_keys (check_file_status plain_str every_value_exists two_keys_text)) bogus_key
       = Some (invalid_entry bogus_key)
   \<and> fst ` set (sr_keys (check_file_status plain_str every_value_exists two_keys_text))
       = {bogus_key, test_key}
   \<and> total_keys (sr_summary (check_file_status plain_str every_value_exists two_keys_text)) = 2"
proof -
  have h: "\<not> known_root bogus_key"
    by code_simp
  have k: "map fst (p_keys (parse_content two_keys_text)) = [bogus_key, test_key]"
    by code_simp
  then have s: "fst ` set (p_keys (parse_content two_keys_text)) = {bogus_key, test_key}"
    by (metis list.set_map list.simps(15) empty_set)
  have l: "length (p_keys (parse_content two_keys_text)) = 2"
    using k by (metis length_map length_Cons list.size(3) numeral_2_eq_2)
  from unknown_root_reported [OF h, of plain_str every_value_exists empty_key two_keys_text] h k s l
  show ?thesis by simp
qed

section \<open>Keys that the registry does not have\<close>

subsection \<open>The shape of a parsed document\<close>

lemma parse_value_typed: "vtype (parse_value raw) \<noteq> None"
  unfolding parse_value_def number_value_def hex_value_def Let_def
  by (simp split: option.splits sum.splits prod.splits)

lemma set_update_subset: "set (AList.update k v al) \<subseteq> insert (k, v) (set al)"
  by (induction al) auto

lemma with_key_well_formed:
  assumes "well_formed (result st)" and "\<And>e. typed_entry e \<Longrightarrow> typed_entry (f e)"
  shows "well_formed (result (with_key st k f))"
proof (cases "map_of (p_keys (result st)) k")
  case None
  then show ?thesis
    using assms(1) by (simp add: with_key_def add_error_def well_formed_def)
next
  case (Some e)
  then have "(k, e) \<in> set (p_keys (result st))"
    by (rule map_of_SomeD)
  then have "typed_entry e"
    using assms(1) by (auto simp: well_formed_def list_all_iff)
  then have fe: "typed_entry (f e)"
    by (rule assms(2))
  have d: "distinct (map fst (AList.update k (f e) (p_keys (result st))))"
    using assms(1) by (simp add: well_formed_def distinct_update)
  have "\<forall>kv \<in> set (AList.update k (f e) (p_keys (result st))). typed_entry (snd kv)"
  proof
    fix kv
    assume "kv \<in> set (AList.update k (f e) (p_keys (result st)))"
    then have "kv = (k, f e) \<or> kv \<in> set (p_keys (result st))"
      using set_update_subset [of k "f e" "p_keys (result st)"] by auto
    then show "typed_entry (snd kv)"
      using fe assms(1) by (auto simp: well_formed_def list_all_iff)
  qed
  with d Some show ?thesis
    by (simp add: with_key_def well_formed_def list_all_iff)
qed

lemma value_line_well_formed:
  assumes "well_formed (result st)" and "value_line st k line = Some st'"
  shows "well_formed (result st')"
proof -
  have a: "typed_entry (e\<lparr>k_default_value := Some (parse_value raw)\<rparr>)"
    if "typed_entry e" for e raw
    using that by (simp add: typed_entry_def parse_value_typed)
  have b: "typed_entry (e\<lparr>k_values := AList.update n v (k_values e)\<rparr>)"
    if "typed_entry e" for e n v
    using that by (simp add: typed_entry_def distinct_update)
  show ?thesis
    using assms(2) with_key_well_formed [OF assms(1)] a b
    unfolding value_line_def
    by (auto split: option.splits)
qed

lemma parse_line_well_formed:
  assumes "well_formed (result st)"
  shows "well_formed (result (parse_line st l))"
proof -
  have new: "well_formed (r\<lparr>p_keys := p_keys r @ [(k, empty_key)]\<rparr>)"
    if "well_formed r" "map_of (p_keys r) k = None" for r k
    using that
    by (auto simp: well_formed_def typed_entry_def empty_key_def map_of_eq_None_iff)
  have other: "well_formed (r\<lparr>p_version := v\<rparr>)" "well_formed (r\<lparr>p_deleted_keys := ds\<rparr>)"
    "well_formed (r\<lparr>p_errors := es\<rparr>)"
    if "well_formed r" for r v ds es
    using that by (simp_all add: well_formed_def)
  have "well_formed (result (st\<lparr>line_number := Suc (line_number st)\<rparr>))"
    using assms by simp
  then have vl: "well_formed (result st')"
    if "value_line (st\<lparr>line_number := Suc (line_number st)\<rparr>) k (strip l) = Some st'" for k st'
    using that by (rule value_line_well_formed)
  show ?thesis
    using assms new other vl
    unfolding parse_line_def Let_def unknown_line_def add_error_def
    by (auto split: option.splits)
qed

lemma foldl_parse_line_well_formed:
  "well_formed (result st) \<Longrightarrow> well_formed (result (foldl parse_line st ls))"
  by (induction ls arbitrary: st) (simp_all add: parse_line_well_formed)

lemma parse_content_well_formed: "well_formed (parse_content content)"
  unfolding parse_content_def parse_lines_def
  by (rule foldl_parse_line_well_formed) (simp add: initial_def well_formed_def)

subsection \<open>The values of a report entry\<close>

lemma fill_named:
  assumes "distinct (map fst kvs)" and "(n, v) \<in> set kvs"
  shows "map_of (foldl (\<lambda>vs (value_name, expected_value).
                   AList.update value_name (f (Some value_name) expected_value) vs) init kvs) n
           = Some (f (Some n) v)"
  using assms
proof (induction kvs rule: rev_induct)
  case Nil
  then show ?case by simp
next
  case (snoc kv kvs)
  show ?case
  proof (cases "kv = (n, v)")
    case True
    then show ?thesis
      by (simp add: update_conv')
  next
    case False
    with snoc.prems have in_kvs: "(n, v) \<in> set kvs" by auto
    then have "n \<in> fst ` set kvs" by force
    with snoc.prems(1) have "fst kv \<noteq> n" by auto
    with snoc.IH snoc.prems(1) in_kvs show ?thesis
      by (simp add: update_conv' case_prod_beta)
  qed
qed

lemma fill_other:
  "n \<notin> fst ` set kvs \<Longrightarrow>
   map_of (foldl (\<lambda>vs (value_name, expected_value).
             AList.update value_name (f (Some value_name) expected_value) vs) init kvs) n
     = map_of init n"
  by (induction kvs rule: rev_induct) (auto simp: update_conv' case_prod_beta)

lemma parse_key_path_handle: "parse_key_path key_path = (Some root_key, sub_key) \<Longrightarrow> root_key \<noteq> 0"
  unfolding parse_key_path_def root_keys_def
  by (auto split: if_splits)

lemma check_key_status_not_found:
  assumes "parse_key_path key_path = (Some root_key, sub_key)"
    and "open_key lv root_key sub_key = FileNotFoundError"
  shows "check_key_status str_of lv key_path key_data = not_found_entry key_data"
  using assms parse_key_path_handle [OF assms(1)]
  by (simp add: check_key_status_def no_root_def not_found_entry_def)

lemma foldl_check_one_entry:
  assumes "distinct (map fst kvs)" and "(key_path, key_data) \<in> set kvs"
  shows "map_of (sr_keys (foldl (check_one str_of lv) sr kvs)) key_path
           = Some (check_key_status str_of lv key_path key_data)"
  using assms
proof (induction kvs rule: rev_induct)
  case Nil
  then show ?case by simp
next
  case (snoc kv kvs)
  show ?case
  proof (cases "kv = (key_path, key_data)")
    case True
    then show ?thesis
      by (simp add: check_one_def Let_def update_conv')
  next
    case False
    with snoc.prems have in_kvs: "(key_path, key_data) \<in> set kvs" by auto
    then have "key_path \<in> fst ` set kvs" by force
    with snoc.prems(1) have "fst kv \<noteq> key_path" by auto
    with snoc.IH snoc.prems(1) in_kvs show ?thesis
      by (simp add: check_one_def Let_def update_conv')
  qed
qed

text \<open>
  C6. For a key that the registry does not have, every declared value, the default
  value included, should be classified \<open>missing\<close> with the declared value as expected
  and no actual value. The checker files the default value under the name \<open>@default\<close>
  and then assigns the named values into the same dictionary: for the key with the
  lines \<open>@="d"\<close> and \<open>"@default"="n"\<close> the entry of the default value is overwritten,
  the only entry of the report expects \<open>n\<close>, and the declared default \<open>d\<close> is not
  classified.
\<close>

theorem default_value_shadowed:
  "p_keys (parse_content shadow_text) =
     [(test_key,
       \<lparr>k_values = [(''@default'', \<lparr>vtype = Some ''REG_SZ'', vdata = Some (PyStr ''n''),
                                     verror = None, vaction = None\<rparr>)],
        k_default_value = Some \<lparr>vtype = Some ''REG_SZ'', vdata = Some (PyStr ''d''),
                                 verror = None, vaction = None\<rparr>\<rparr>)]
   \<and> parse_key_path test_key = (Some 0x80000001, test_sub_key)
   \<and> open_key no_key_exists 0x80000001 test_sub_key = FileNotFoundError
   \<and> sr_keys (check_file_status plain_str no_key_exists shadow_text) =
       [(test_key,
         \<lparr>ks_exists = False,
          ks_values =
            [(''@default'',
              \<lparr>vs_status = ''missing'',
               vs_expected = \<lparr>vtype = Some ''REG_SZ'', vdata = Some (PyStr ''n''),
                              verror = None, vaction = None\<rparr>,
               vs_actual = None, vs_error = None\<rparr>)],
          ks_errors = Some [], ks_expected_deleted = None, ks_status = None\<rparr>)]
   \<and> sr_summary (check_file_status plain_str no_key_exists shadow_text) =
       \<lparr>total_keys = 1, active_keys = 0, missing_keys = 1, total_values = 1,
        matching_values = 0, different_values = 0, missing_values = 1\<rparr>"
  by code_simp

text \<open>
  Apart from that collision the claim holds. For every document key whose live open
  reports not-found, the report entry of the key has \<open>exists = False\<close> and no error;
  every declared named value is classified \<open>missing\<close> with the declared value as
  expected and no actual value; so is the default value, under the name \<open>@default\<close>,
  if no named value is called \<open>@default\<close>; and the entry does not depend on what reading
  a value would return.
\<close>

lemma missing_key_entries:
  assumes "(key_path, key_data) \<in> set (p_keys (parse_content content))"
    and "parse_key_path key_path = (Some root_key, sub_key)"
    and "open_key lv root_key sub_key = FileNotFoundError"
  shows "map_of (sr_keys (check_file_status str_of lv content)) key_path
           = Some (not_found_entry key_data)
       \<and> ks_exists (not_found_entry key_data) = False
       \<and> ks_errors (not_found_entry key_data) = Some []
       \<and> (\<forall>(n, v) \<in> set (k_values key_data).
             map_of (ks_values (not_found_entry key_data)) n
               = Some \<lparr>vs_status = ''missing'', vs_expected = v, vs_actual = None,
                       vs_error = None\<rparr>)
       \<and> (\<forall>d. k_default_value key_data = Some d \<and> ''@default'' \<notin> fst ` set (k_values key_data)
             \<longrightarrow> map_of (ks_values (not_found_entry key_data)) ''@default''
                   = Some \<lparr>vs_status = ''missing'', vs_expected = d, vs_actual = None,
                           vs_error = None\<rparr>)
       \<and> check_key_status str_of' (lv\<lparr>query_value := q, query_value_ex := qx\<rparr>) key_path key_data
           = not_found_entry key_data"
proof -
  have wf: "well_formed (parse_content content)"
    by (rule parse_content_well_formed)
  then have dk: "distinct (map fst (p_keys (parse_content content)))"
    by (simp add: well_formed_def)
  from wf assms(1) have te: "typed_entry key_data"
    by (auto simp: well_formed_def list_all_iff)
  have entry: "map_of (sr_keys (check_file_status str_of lv content)) key_path
                 = Some (not_found_entry key_data)"
    using foldl_check_one_entry [OF dk assms(1)] check_key_status_not_found [OF assms(2,3)]
    by (simp add: check_file_status_keys)
  have named: "\<forall>(n, v) \<in> set (k_values key_data).
      map_of (ks_values (not_found_entry key_data)) n = Some (missing_entry v)"
    using te fill_named [of "k_values key_data" _ _ "\<lambda>n. missing_entry"]
    by (auto simp: typed_entry_def not_found_entry_def fill_values_def)
  have default: "map_of (ks_values (not_found_entry key_data)) ''@default'' = Some (missing_entry d)"
    if "k_default_value key_data = Some d" "''@default'' \<notin> fst ` set (k_values key_data)" for d
  proof -
    from te that(1) have "truthy (k_default_value key_data)"
      by (simp add: typed_entry_def truthy_def)
    with that show ?thesis
      using fill_other [of "''@default''" "k_values key_data" "\<lambda>n. missing_entry"]
      by (simp add: not_found_entry_def fill_values_def)
  qed
  have "open_key (lv\<lparr>query_value := q, query_value_ex := qx\<rparr>) root_key sub_key = FileNotFoundError"
    using assms(3) by simp
  from check_key_status_not_found [OF assms(2) this]
  have indep: "check_key_status str_of' (lv\<lparr>query_value := q, query_value_ex := qx\<rparr>) key_path key_data
           = not_found_entry key_data" .
  have shape: "missing_entry v =
      \<lparr>vs_status = ''missing'', vs_expected = v, vs_actual = None, vs_error = None\<rparr>" for v
    by (simp add: missing_entry_def)
  from entry named default indep show ?thesis
    unfolding shape by (simp add: not_found_entry_def)
qed

section \<open>Malformed lines\<close>


















section \<open>The summary and the entries of the report\<close>

lemma foldl_count_value_eq:
  "foldl count_value s vs =
     s\<lparr>total_values := total_values s + length vs,
       matching_values := matching_values s + length (filter (\<lambda>v. vs_status v = ''match'') vs),
       different_values := different_values s + length (filter (\<lambda>v. vs_status v = ''different'') vs),
       missing_values := missing_values s
         + length (filter (\<lambda>v. vs_status v \<noteq> ''match'' \<and> vs_status v \<noteq> ''different'') vs)\<rparr>"
proof (induction vs arbitrary: s)
  case Nil
  show ?case by simp
next
  case (Cons v vs)
  have "foldl count_value s (v # vs) = foldl count_value (count_value s v) vs"
    by simp
  also have "\<dots> = (count_value s v)
     \<lparr>total_values := total_values (count_value s v) + length vs,
       matching_values := matching_values (count_value s v)
         + length (filter (\<lambda>v. vs_status v = ''match'') vs),
       different_values := different_values (count_value s v)
         + length (filter (\<lambda>v. vs_status v = ''different'') vs),
       missing_values := missing_values (count_value s v)
         + length (filter (\<lambda>v. vs_status v \<noteq> ''match'' \<and> vs_status v \<noteq> ''different'') vs)\<rparr>"
    by (rule Cons.IH)
  also have "\<dots> = s
     \<lparr>total_values := total_values s + length (v # vs),
       matching_values := matching_values s
         + length (filter (\<lambda>v. vs_status v = ''match'') (v # vs)),
       different_values := different_values s
         + length (filter (\<lambda>v. vs_status v = ''different'') (v # vs)),
       missing_values := missing_values s
         + length (filter (\<lambda>v. vs_status v \<noteq> ''match'' \<and> vs_status v \<noteq> ''different'') (v # vs))\<rparr>"
    by (cases s) (simp add: count_value_def Let_def)
  finally show ?case .
qed

lemma count_key_eq:
  "count_key s ks =
     s\<lparr>total_keys := total_keys s + 1,
       active_keys := active_keys s + (if ks_exists ks then 1 else 0),
       missing_keys := missing_keys s + (if ks_exists ks then 0 else 1),
       total_values := total_values s + length (ks_values ks),
       matching_values := matching_values s
         + length (filter (\<lambda>v. vs_status (snd v) = ''match'') (ks_values ks)),
       different_values := different_values s
         + length (filter (\<lambda>v. vs_status (snd v) = ''different'') (ks_values ks)),
       missing_values := missing_values s
         + length (filter (\<lambda>v. vs_status (snd v) \<noteq> ''match''
                               \<and> vs_status (snd v) \<noteq> ''different'') (ks_values ks))\<rparr>"
  by (cases s) (simp add: count_key_def Let_def foldl_count_value_eq filter_map o_def)

lemma tally_snoc: "tally (kss @ [ks]) = count_key (tally kss) ks"
  by (simp add: count_key_eq tally_def)

lemma foldl_check_one_tally:
  assumes "sr_summary sr = empty_summary"
  shows "sr_summary (foldl (check_one str_of lv) sr kvs) =
           tally (map (\<lambda>kv. check_key_status str_of lv (fst kv) (snd kv)) kvs)"
proof (induction kvs rule: rev_induct)
  case Nil
  show ?case
    using assms by (simp add: tally_def empty_summary_def)
next
  case (snoc kv kvs)
  then show ?case
    by (simp add: check_one_def Let_def tally_snoc)
qed

lemma update_fresh: "k \<notin> fst ` set al \<Longrightarrow> AList.update k v al = al @ [(k, v)]"
  by (induction al) auto

lemma foldl_check_one_report:
  assumes "distinct (map fst kvs)" and "sr_keys sr = []"
  shows "sr_keys (foldl (check_one str_of lv) sr kvs) =
           map (\<lambda>kv. (fst kv, check_key_status str_of lv (fst kv) (snd kv))) kvs"
  using assms(1)
proof (induction kvs rule: rev_induct)
  case Nil
  show ?case
    using assms(2) by simp
next
  case (snoc kv kvs)
  then have fresh: "fst kv \<notin> fst ` set kvs" and d: "distinct (map fst kvs)"
    by auto
  have "fst kv \<notin> fst ` set (map (\<lambda>kv. (fst kv, check_key_status str_of lv (fst kv) (snd kv))) kvs)"
    using fresh by force
  then show ?case
    using snoc.IH [OF d] by (simp add: check_one_def Let_def update_fresh)
qed

text \<open>
  C10. For every parsed document and every behaviour of the live registry, the summary
  of the report satisfies \<open>total_keys = active_keys + missing_keys\<close> and
  \<open>total_values = matching_values + different_values + missing_values\<close>. The summary
  is the tally of the report's entries: every key entry is counted once, as active or
  missing by its \<open>exists\<close> flag, and every value entry of every key is counted once in
  \<open>total_values\<close> and in exactly one bucket, which is \<open>missing_values\<close> for every status
  other than \<open>match\<close> and \<open>different\<close>.
\<close>

theorem summary_balanced:
  "total_keys (sr_summary (check_parsed str_of lv parsed_data)) =
     active_keys (sr_summary (check_parsed str_of lv parsed_data))
     + missing_keys (sr_summary (check_parsed str_of lv parsed_data))
   \<and> total_values (sr_summary (check_parsed str_of lv parsed_data)) =
       matching_values (sr_summary (check_parsed str_of lv parsed_data))
       + different_values (sr_summary (check_parsed str_of lv parsed_data))
       + missing_values (sr_summary (check_parsed str_of lv parsed_data))
   \<and> total_values (count_value s v) = total_values s + 1
   \<and> matching_values (count_value s v) =
       matching_values s + (if vs_status v = ''match'' then 1 else 0)
   \<and> different_values (count_value s v) =
       different_values s + (if vs_status v = ''different'' then 1 else 0)
   \<and> missing_values (count_value s v) =
       missing_values s
       + (if vs_status v \<noteq> ''match'' \<and> vs_status v \<noteq> ''different'' then 1 else 0)
   \<and> sr_summary (check_parsed str_of lv parsed_data) =
       tally (map (\<lambda>kv. check_key_status str_of lv (fst kv) (snd kv)) (p_keys parsed_data))
   \<and> sr_keys (check_file_status str_of lv content) =
       map (\<lambda>kv. (fst kv, check_key_status str_of lv (fst kv) (snd kv)))
         (p_keys (parse_content content))
   \<and> sr_summary (check_file_status str_of lv content) =
       tally (map snd (sr_keys (check_file_status str_of lv content)))"
proof -
  let ?sr = "\<lparr>sr_summary = empty_summary, sr_keys = [], sr_overall_status = []\<rparr>"
  have sums: "sr_summary (check_parsed str_of lv parsed_data) =
          sr_summary (foldl (check_one str_of lv) ?sr (p_keys parsed_data))"
    by (simp add: check_parsed_def Let_def foldl_check_deleted_summary)
  have k0: "total_keys (sr_summary ?sr) = active_keys (sr_summary ?sr) + missing_keys (sr_summary ?sr)"
    by (simp add: empty_summary_def)
  have v0: "total_values (sr_summary ?sr) =
      matching_values (sr_summary ?sr) + different_values (sr_summary ?sr)
      + missing_values (sr_summary ?sr)"
    by (simp add: empty_summary_def)
  have balanced: "total_keys (sr_summary (check_parsed str_of lv parsed_data)) =
     active_keys (sr_summary (check_parsed str_of lv parsed_data))
     + missing_keys (sr_summary (check_parsed str_of lv parsed_data))
   \<and> total_values (sr_summary (check_parsed str_of lv parsed_data)) =
       matching_values (sr_summary (check_parsed str_of lv parsed_data))
       + different_values (sr_summary (check_parsed str_of lv parsed_data))
       + missing_values (sr_summary (check_parsed str_of lv parsed_data))"
    unfolding sums using foldl_check_one_balanced [OF k0 v0] by simp
  have t: "sr_summary (check_parsed str_of lv parsed_data) =
       tally (map (\<lambda>kv. check_key_status str_of lv (fst kv) (snd kv)) (p_keys parsed_data))"
    unfolding sums by (rule foldl_check_one_tally) simp
  have "distinct (map fst (p_keys (parse_content content)))"
    using parse_content_well_formed [of content] by (simp add: well_formed_def)
  then have r: "sr_keys (check_file_status str_of lv content) =
       map (\<lambda>kv. (fst kv, check_key_status str_of lv (fst kv) (snd kv)))
         (p_keys (parse_content content))"
    unfolding check_file_status_keys by (rule foldl_check_one_report) simp
  have "sr_summary (check_file_status str_of lv content) =
       tally (map (\<lambda>kv. check_key_status str_of lv (fst kv) (snd kv)) (p_keys (parse_content content)))"
    unfolding check_file_status_summary by (rule foldl_check_one_tally) simp
  then have f: "sr_summary (check_file_status str_of lv content) =
       tally (map snd (sr_keys (check_file_status str_of lv content)))"
    unfolding r by (simp add: o_def)
  from balanced t r f show ?thesis
    by (simp add: count_value_fields)
qed

theorem summary_balanced_witness:
  "sr_summary (check_file_status plain_str mixed_registry three_values_text) =
     \<lparr>total_keys = 2, active_keys = 1, missing_keys = 1, total_values = 3,
      matching_values = 1, different_values = 1, missing_values = 1\<rparr>
   \<and> map (\<lambda>kv. map (\<lambda>v. (fst v, vs_status (snd v))) (ks_values (snd kv)))
       (sr_keys (check_file_status plain_str mixed_registry three_values_text)) =
     [[], [(''A'', ''match''), (''B'', ''different''), (''C'', ''missing'')]]
   \<and> tally (map snd (sr_keys (check_file_status plain_str mixed_registry three_values_text))) =
     \<lparr>total_keys = 2, active_keys = 1, missing_keys = 1, total_values = 3,
      matching_values = 1, different_values = 1, missing_values = 1\<rparr>"
proof -
  have a: "sr_summary (check_file_status plain_str mixed_registry three_values_text) =
     \<lparr>total_keys = 2, active_keys = 1, missing_keys = 1, total_values = 3,
      matching_values = 1, different_values = 1, missing_values = 1\<rparr>"
    by code_simp
  have b: "map (\<lambda>kv. map (\<lambda>v. (fst v, vs_status (snd v))) (ks_values (snd kv)))
       (sr_keys (check_file_status plain_str mixed_registry three_values_text)) =
     [[], [(''A'', ''match''), (''B'', ''different''), (''C'', ''missing'')]]"
    by code_simp
  from a b
    summary_balanced [of plain_str mixed_registry "parse_content three_values_text" empty_summary
      "missing_entry delete_marker" three_values_text]
  show ?thesis by simp
qed

end
